theory Spec2Isabelle
  imports Main
begin

section \<open>Data model\<close>

text \<open>
  The organization model lives in two MongoDB collections: organization documents, each
  embedding its teams, and user documents, each embedding its organization memberships.
  A collection is a map from the document identifier (the unique \<^verbatim>\<open>_id\<close> index) to the
  document. Embedded arrays are lists: the store does not enforce anything on them.
  An ObjectId is a natural number; a timestamp is a natural number. The organization id,
  the parameter \<^verbatim>\<open>id\<close> of the source, is written \<open>orgId\<close>.
\<close>

type_synonym oid = nat

datatype error = NotFound | ValidationError

text \<open>
  The values a caller can bind to a field of the untyped input records
  (\<^verbatim>\<open>Record<string, any>\<close>). The declared field types are strings; \<^verbatim>\<open>undefined\<close>,
  \<^verbatim>\<open>null\<close> and booleans are the other values the operations distinguish. A key
  that is absent reads as \<^verbatim>\<open>undefined\<close>.
\<close>

datatype jsval = JUndefined | JNull | JBool bool | JStr string

type_synonym jsrecord = "string \<Rightarrow> jsval"

text \<open>JavaScript truthiness, as tested by \<^verbatim>\<open>if (newTeamInput[key])\<close>.\<close>

fun truthy :: "jsval \<Rightarrow> bool" where
  "truthy JUndefined = False"
| "truthy JNull = False"
| "truthy (JBool b) = b"
| "truthy (JStr s) = (s \<noteq> [])"

text \<open>
  The cast of a value to a schema path of type \<^verbatim>\<open>String\<close>: \<^verbatim>\<open>null\<close> and
  \<^verbatim>\<open>undefined\<close> leave the path unset, every other value is stored as its
  \<^verbatim>\<open>toString()\<close>.
\<close>

fun castString :: "jsval \<Rightarrow> string option" where
  "castString JUndefined = None"
| "castString JNull = None"
| "castString (JBool b) = Some (if b then ''true'' else ''false'')"
| "castString (JStr s) = Some s"

text \<open>
  An access-control entry of an entity's \<^verbatim>\<open>accessControlList\<close>, with its fields
  \<^verbatim>\<open>userId\<close> and \<^verbatim>\<open>role\<close>.
\<close>

record ace =
  ace_userId :: oid
  ace_role :: string

text \<open>
  \<^verbatim>\<open>ITeamDoc\<close>: \<^verbatim>\<open>_id\<close>, \<^verbatim>\<open>name\<close> (required), \<^verbatim>\<open>logoPath\<close> (optional)
  and the \<^verbatim>\<open>accessControlList\<close> of \<^verbatim>\<open>RestrictedDocument\<close>.
\<close>

record team =
  team_id :: oid
  team_name :: string
  logoPath :: "string option"
  team_acl :: "ace list"

text \<open>
  The organization document, with the fields the tests show: \<^verbatim>\<open>name\<close>,
  \<^verbatim>\<open>accessControlList\<close>, \<^verbatim>\<open>teams\<close> and the two timestamps of the schema. Its
  \<^verbatim>\<open>_id\<close> is the key under which the collection holds it. A write that matches an
  organization stamps its \<^verbatim>\<open>updatedAt\<close>, as the tests of \<^verbatim>\<open>updateOrganization\<close>
  observe; the time of the write is the argument \<open>now\<close> of the operations.
\<close>

record organization =
  org_name :: string
  org_acl :: "ace list"
  teams :: "team list"
  createdAt :: nat
  updatedAt :: nat

text \<open>
  An element of a user's \<^verbatim>\<open>organizationMemberships\<close>: the organization and the
  user's teams within it (the path \<^verbatim>\<open>organizationMemberships.$[t].teams\<close>).
\<close>

record membership =
  organizationId :: oid
  member_teams :: "oid list"

text \<open>
  The user document, reduced to the fields the organization model reads and writes. The
  document carries its \<^verbatim>\<open>_id\<close>, which the authorization check reads from the user
  it is given.
\<close>

record user =
  user_id :: oid
  organizationMemberships :: "membership list"

record db =
  organizations :: "oid \<rightharpoonup> organization"
  users :: "oid \<rightharpoonup> user"

section \<open>Update operators of the store\<close>

text \<open>\<^verbatim>\<open>$addToSet\<close>: append the value unless an equal element is already there.\<close>

definition addToSet :: "'a \<Rightarrow> 'a list \<Rightarrow> 'a list" where
  "addToSet x xs = (if x \<in> set xs then xs else xs @ [x])"

text \<open>\<^verbatim>\<open>$pull\<close>: remove every element that matches the condition.\<close>

definition pull :: "('a \<Rightarrow> bool) \<Rightarrow> 'a list \<Rightarrow> 'a list" where
  "pull P xs = filter (\<lambda>x. \<not> P x) xs"

text \<open>
  The positional operator \<^verbatim>\<open>teams.$\<close>: the update applies to the first array element
  that matches the query condition on the array.
\<close>

fun updateFirst :: "('a \<Rightarrow> bool) \<Rightarrow> ('a \<Rightarrow> 'a) \<Rightarrow> 'a list \<Rightarrow> 'a list" where
  "updateFirst P f [] = []"
| "updateFirst P f (x # xs) = (if P x then f x # xs else x # updateFirst P f xs)"

text \<open>The query condition \<^verbatim>\<open>'teams._id': teamId\<close>: some team of the array has the id.\<close>

definition hasTeam :: "oid \<Rightarrow> organization \<Rightarrow> bool" where
  "hasTeam teamId org = (\<exists>t \<in> set (teams org). team_id t = teamId)"

text \<open>
  The query condition \<^verbatim>\<open>'organizationMemberships.organizationId': id\<close>: some membership
  of the user is for the organization.
\<close>

definition isMember :: "oid \<Rightarrow> user \<Rightarrow> bool" where
  "isMember orgId u = (\<exists>m \<in> set (organizationMemberships u). organizationId m = orgId)"

text \<open>
  An update of \<^verbatim>\<open>organizationMemberships.$[t]\<close> under the array filter
  \<^verbatim>\<open>{'t.organizationId': id}\<close>: every membership for the organization is updated.
\<close>

definition arrayFiltered :: "oid \<Rightarrow> (membership \<Rightarrow> membership) \<Rightarrow> user \<Rightarrow> user" where
  "arrayFiltered orgId f u =
     u\<lparr>organizationMemberships :=
         map (\<lambda>m. if organizationId m = orgId then f m else m) (organizationMemberships u)\<rparr>"

section \<open>Team operations of the organization model\<close>

definition TEAM_UPDATABLE_FIELDS :: "string list" where
  "TEAM_UPDATABLE_FIELDS = [''name'', ''logoPath'']"

text \<open>
  \<^verbatim>\<open>newTeamFieldSet\<close> of \<^verbatim>\<open>updateTeam\<close>: the loop over the updatable fields keeps a
  key when the input binds it to a truthy value. The entry for \<^verbatim>\<open>key\<close> stands for the
  path \<^verbatim>\<open>teams.$.key\<close>.
\<close>

definition newTeamFieldSet :: "jsrecord \<Rightarrow> (string \<times> jsval) list" where
  "newTeamFieldSet newTeamInput =
     map (\<lambda>key. (key, newTeamInput key))
       (filter (\<lambda>key. truthy (newTeamInput key)) TEAM_UPDATABLE_FIELDS)"

text \<open>\<^verbatim>\<open>$set\<close> of one path of the matched team, the value cast by the team schema.\<close>

definition setTeamField :: "string \<times> jsval \<Rightarrow> team \<Rightarrow> team" where
  "setTeamField kv t =
     (if fst kv = ''name'' then
        (case castString (snd kv) of None \<Rightarrow> t | Some s \<Rightarrow> t\<lparr>team_name := s\<rparr>)
      else if fst kv = ''logoPath'' then t\<lparr>logoPath := castString (snd kv)\<rparr>
      else t)"

definition setTeamFields :: "(string \<times> jsval) list \<Rightarrow> team \<Rightarrow> team" where
  "setTeamFields fs t = fold setTeamField fs t"

text \<open>
  \<^verbatim>\<open>updateTeam\<close>: one \<^verbatim>\<open>findOneAndUpdate\<close> with the filter
  \<^verbatim>\<open>{_id: id, 'teams._id': teamId}\<close> and the option \<^verbatim>\<open>new: true\<close>. It resolves to the
  updated organization, or to \<^verbatim>\<open>null\<close> (\<open>None\<close>) when no document matches. A matched
  write stamps \<^verbatim>\<open>updatedAt\<close> with the time \<open>now\<close> of the write.
\<close>

definition updateTeam ::
  "nat \<Rightarrow> oid \<Rightarrow> oid \<Rightarrow> jsrecord \<Rightarrow> db \<Rightarrow> (error + organization option) \<times> db" where
  "updateTeam now orgId teamId team st =
     (case organizations st orgId of
        None \<Rightarrow> (Inr None, st)
      | Some org \<Rightarrow>
          if \<not> hasTeam teamId org then (Inr None, st)
          else
            let org' = org\<lparr>teams := updateFirst (\<lambda>t. team_id t = teamId)
                                    (setTeamFields (newTeamFieldSet team)) (teams org),
                           updatedAt := now\<rparr>
            in (Inr (Some org'), st\<lparr>organizations := (organizations st)(orgId \<mapsto> org')\<rparr>))"

text \<open>
  \<^verbatim>\<open>deleteTeam\<close>: the team is pulled from the organization matched by
  \<^verbatim>\<open>{_id: id, 'teams._id': teamId}\<close>; then \<^verbatim>\<open>updateMany\<close> pulls the team id from the
  memberships for the organization of every user that has one. Nothing is raised.
\<close>

definition deleteTeam :: "nat \<Rightarrow> oid \<Rightarrow> oid \<Rightarrow> db \<Rightarrow> db" where
  "deleteTeam now orgId teamId st =
     (let st1 =
        (case organizations st orgId of
           None \<Rightarrow> st
         | Some org \<Rightarrow>
             if \<not> hasTeam teamId org then st
             else st\<lparr>organizations := (organizations st)(orgId \<mapsto>
                      org\<lparr>teams := pull (\<lambda>t. team_id t = teamId) (teams org),
                          updatedAt := now\<rparr>)\<rparr>)
      in st1\<lparr>users := (\<lambda>uid.
            map_option
              (\<lambda>u. if isMember orgId u
                   then arrayFiltered orgId
                          (\<lambda>m. m\<lparr>member_teams := pull (\<lambda>x. x = teamId) (member_teams m)\<rparr>) u
                   else u)
              (users st1 uid))\<rparr>)"

text \<open>
  \<^verbatim>\<open>organizationTeamFound\<close>: the organization is loaded and exactly one of its teams
  has the id (\<^verbatim>\<open>filter(...).length === 1\<close>).
\<close>

definition organizationTeamFound :: "db \<Rightarrow> oid \<Rightarrow> oid \<Rightarrow> bool" where
  "organizationTeamFound st orgId teamId =
     (case organizations st orgId of
        None \<Rightarrow> False
      | Some org \<Rightarrow> length (filter (\<lambda>t. team_id t = teamId) (teams org)) = 1)"

definition addUserToTeam :: "oid \<Rightarrow> oid \<Rightarrow> oid \<Rightarrow> db \<Rightarrow> (error + unit) \<times> db" where
  "addUserToTeam orgId teamId userId st =
     (if \<not> organizationTeamFound st orgId teamId then (Inl NotFound, st)
      else
        (case users st userId of
           None \<Rightarrow> (Inl NotFound, st)
         | Some u \<Rightarrow>
             if \<not> isMember orgId u then (Inl NotFound, st)
             else (Inr (), st\<lparr>users := (users st)(userId \<mapsto>
                     arrayFiltered orgId
                       (\<lambda>m. m\<lparr>member_teams := addToSet teamId (member_teams m)\<rparr>) u)\<rparr>)))"

definition removeUserFromTeam :: "oid \<Rightarrow> oid \<Rightarrow> oid \<Rightarrow> db \<Rightarrow> (error + unit) \<times> db" where
  "removeUserFromTeam orgId teamId userId st =
     (if \<not> organizationTeamFound st orgId teamId then (Inl NotFound, st)
      else
        (case users st userId of
           None \<Rightarrow> (Inl NotFound, st)
         | Some u \<Rightarrow>
             if \<not> isMember orgId u then (Inl NotFound, st)
             else (Inr (), st\<lparr>users := (users st)(userId \<mapsto>
                     arrayFiltered orgId
                       (\<lambda>m. m\<lparr>member_teams := pull (\<lambda>x. x = teamId) (member_teams m)\<rparr>) u)\<rparr>)))"

text \<open>
  The cast of the input of \<^verbatim>\<open>createTeam\<close> to the team schema, with the validators
  that \<^verbatim>\<open>runValidators: true\<close> runs before the write: \<^verbatim>\<open>name\<close> is required, so it
  must be a non-empty string after the cast. The input type declares the paths
  \<^verbatim>\<open>name\<close> and \<^verbatim>\<open>logoPath\<close>; the new team starts with an empty access-control
  list. \<open>None\<close> is the validation failure.
\<close>

definition castTeam :: "oid \<Rightarrow> jsrecord \<Rightarrow> team option" where
  "castTeam newId team =
     (case castString (team ''name'') of
        None \<Rightarrow> None
      | Some s \<Rightarrow>
          if s = [] then None
          else Some \<lparr>team_id = newId, team_name = s,
                     logoPath = castString (team ''logoPath''), team_acl = []\<rparr>)"

definition TEAM_ADMIN :: string where
  "TEAM_ADMIN = ''TEAM_ADMIN''"

section \<open>Role assignment\<close>

text \<open>
  Modelled from the spec: the role-assignment plugin (\<^verbatim>\<open>setNestedUserRole\<close> and its
  siblings) is not part of the sources. \<open>setRole\<close> upserts the one entry of a subject in
  an access-control list: an entry of the subject that is already there is replaced.
  \<open>removeRole\<close> removes the entries of the subject, and is a no-op when there is none.
  The role catalog's rejection of unknown tokens is not modelled: the catalog is not
  part of the sources, and the operations below are applied to tokens of the catalog.
\<close>

definition setRole :: "string \<Rightarrow> oid \<Rightarrow> ace list \<Rightarrow> ace list" where
  "setRole r subjectId acl =
     filter (\<lambda>a. ace_userId a \<noteq> subjectId) acl @ [\<lparr>ace_userId = subjectId, ace_role = r\<rparr>]"


text \<open>
  Modelled from the spec: a write to the access-control list of a team is a single
  conditional update keyed by the organization id and the team id, and fails with
  \<^verbatim>\<open>NotFound\<close> when it matches nothing. It resolves to the updated organization.
\<close>

definition updateNestedACL ::
  "nat \<Rightarrow> oid \<Rightarrow> oid \<Rightarrow> (ace list \<Rightarrow> ace list) \<Rightarrow> db \<Rightarrow> (error + organization) \<times> db" where
  "updateNestedACL now orgId nestedEntityId f st =
     (case organizations st orgId of
        None \<Rightarrow> (Inl NotFound, st)
      | Some org \<Rightarrow>
          if \<not> hasTeam nestedEntityId org then (Inl NotFound, st)
          else
            let org' = org\<lparr>teams := updateFirst (\<lambda>t. team_id t = nestedEntityId)
                                    (\<lambda>t. t\<lparr>team_acl := f (team_acl t)\<rparr>) (teams org),
                           updatedAt := now\<rparr>
            in (Inr org', st\<lparr>organizations := (organizations st)(orgId \<mapsto> org')\<rparr>))"

text \<open>
  Modelled from the spec: \<^verbatim>\<open>setNestedUserRole\<close>, the \<open>setRole\<close> of the spec on the path
  (organization, teams, team). The nested field is fixed to \<^verbatim>\<open>teams\<close>, the only nested
  collection of this model.
\<close>

definition setNestedUserRole ::
  "nat \<Rightarrow> oid \<Rightarrow> oid \<Rightarrow> string \<Rightarrow> oid \<Rightarrow> db \<Rightarrow> (error + organization) \<times> db" where
  "setNestedUserRole now orgId nestedEntityId r userId st =
     updateNestedACL now orgId nestedEntityId (setRole r userId) st"

text \<open>
  \<^verbatim>\<open>createTeam\<close>: the input is cast and validated, the new team (with the fresh
  identifier \<open>newId\<close> of \<^verbatim>\<open>mongoose.Types.ObjectId()\<close>) is added to the teams of the
  organization matched by \<^verbatim>\<open>{_id: id}\<close>, \<^verbatim>\<open>NotFound\<close> is raised when there is no such
  organization, and the creator is granted \<^verbatim>\<open>TEAM_ROLES.TEAM_ADMIN\<close> on the new team.
  \<^verbatim>\<open>updatedOrganization.id\<close> is the id the document was matched by.
\<close>

definition createTeam ::
  "oid \<Rightarrow> nat \<Rightarrow> oid \<Rightarrow> jsrecord \<Rightarrow> oid \<Rightarrow> db \<Rightarrow> (error + organization) \<times> db" where
  "createTeam newId now orgId team creatorId st =
     (case castTeam newId team of
        None \<Rightarrow> (Inl ValidationError, st)
      | Some newTeam \<Rightarrow>
          (case organizations st orgId of
             None \<Rightarrow> (Inl NotFound, st)
           | Some org \<Rightarrow>
               let updatedOrganization =
                     org\<lparr>teams := addToSet newTeam (teams org), updatedAt := now\<rparr>;
                   st1 = st\<lparr>organizations := (organizations st)(orgId \<mapsto> updatedOrganization)\<rparr>
               in setNestedUserRole now orgId newId TEAM_ADMIN creatorId st1))"



section \<open>Authorization\<close>

text \<open>
  Modelled from the spec: \<^verbatim>\<open>isAuthorized\<close> is not part of the sources. The effective
  roles of a user within an organization are the roles of the entries of the
  organization's list that name the user, and the roles of every entry on the list of
  every team of the organization whose id is among the user's team ids.
\<close>

definition effectiveRoles :: "db \<Rightarrow> oid \<Rightarrow> user \<Rightarrow> membership \<Rightarrow> string list" where
  "effectiveRoles st orgId u m =
     (case organizations st orgId of
        None \<Rightarrow> []
      | Some org \<Rightarrow>
          map ace_role (filter (\<lambda>a. ace_userId a = user_id u) (org_acl org)) @
          concat (map (\<lambda>t. map ace_role (team_acl t))
                    (filter (\<lambda>t. team_id t \<in> set (member_teams m)) (teams org))))"

text \<open>
  Modelled from the spec: the resolver. Without a membership entry for the organization
  the answer is false; without required roles (\<open>None\<close> is \<^verbatim>\<open>undefined\<close>) membership
  suffices; otherwise some effective role must be among the required ones.
\<close>

definition isAuthorized :: "db \<Rightarrow> oid \<Rightarrow> string list option \<Rightarrow> user \<Rightarrow> bool" where
  "isAuthorized st orgId requiredRoles u =
     (case find (\<lambda>m. organizationId m = orgId) (organizationMemberships u) of
        None \<Rightarrow> False
      | Some m \<Rightarrow>
          (case requiredRoles of
             None \<Rightarrow> True
           | Some roles \<Rightarrow> \<exists>r \<in> set (effectiveRoles st orgId u m). r \<in> set roles))"

section \<open>Organizations\<close>

definition ORG_FULL_ADMIN :: string where
  "ORG_FULL_ADMIN = ''ORG_FULL_ADMIN''"

text \<open>
  Modelled from the spec: \<^verbatim>\<open>grantOnCreate\<close> on an organization seeds its access-control
  list with the creator's entry; \<^verbatim>\<open>NotFound\<close> when the organization does not exist.
\<close>

definition grantOnCreate ::
  "oid \<Rightarrow> oid \<Rightarrow> string \<Rightarrow> db \<Rightarrow> (error + organization) \<times> db" where
  "grantOnCreate orgId subjectId adminRole st =
     (case organizations st orgId of
        None \<Rightarrow> (Inl NotFound, st)
      | Some org \<Rightarrow>
          let org' = org\<lparr>org_acl := setRole adminRole subjectId (org_acl org)\<rparr>
          in (Inr org', st\<lparr>organizations := (organizations st)(orgId \<mapsto> org')\<rparr>))"

text \<open>
  Modelled from the spec: \<^verbatim>\<open>addUserToOrganization\<close> fails with \<^verbatim>\<open>NotFound\<close> when the
  organization or the user does not exist; otherwise it makes sure that the user has a
  membership entry for the organization, and touches no access-control list.
\<close>

definition addUserToOrganization :: "oid \<Rightarrow> oid \<Rightarrow> db \<Rightarrow> (error + unit) \<times> db" where
  "addUserToOrganization orgId userId st =
     (case organizations st orgId of
        None \<Rightarrow> (Inl NotFound, st)
      | Some org \<Rightarrow>
          (case users st userId of
             None \<Rightarrow> (Inl NotFound, st)
           | Some u \<Rightarrow>
               if isMember orgId u then (Inr (), st)
               else (Inr (), st\<lparr>users := (users st)(userId \<mapsto>
                       u\<lparr>organizationMemberships := organizationMemberships u @
                           [\<lparr>organizationId = orgId, member_teams = []\<rparr>]\<rparr>)\<rparr>)))"

text \<open>
  Modelled from the spec: \<^verbatim>\<open>createOrganization\<close> is not part of the sources. It
  validates the attributes (a name is required, as the test of the validation error
  shows), persists the new organization under the fresh identifier \<open>newId\<close>, grants the
  creator the top organization role, and adds the creator to the organization. It
  resolves to the organization with the grant.
\<close>

definition createOrganization ::
  "oid \<Rightarrow> nat \<Rightarrow> jsrecord \<Rightarrow> oid \<Rightarrow> db \<Rightarrow> (error + organization) \<times> db" where
  "createOrganization newId now attrs creatorId st =
     (case castString (attrs ''name'') of
        None \<Rightarrow> (Inl ValidationError, st)
      | Some s \<Rightarrow>
          if s = [] then (Inl ValidationError, st)
          else
            let org = \<lparr>org_name = s, org_acl = [], teams = [],
                       createdAt = now, updatedAt = now\<rparr>;
                st1 = st\<lparr>organizations := (organizations st)(newId \<mapsto> org)\<rparr>
            in (case grantOnCreate newId creatorId ORG_FULL_ADMIN st1 of
                  (Inl e, st2) \<Rightarrow> (Inl e, st2)
                | (Inr createdOrg, st2) \<Rightarrow>
                    (case addUserToOrganization newId creatorId st2 of
                       (Inl e, st3) \<Rightarrow> (Inl e, st3)
                     | (Inr _, st3) \<Rightarrow> (Inr createdOrg, st3))))"

text \<open>
  Modelled from the spec: \<^verbatim>\<open>updateOrganization\<close> is not part of the sources. Of the
  partial input it applies the allow-listed field \<^verbatim>\<open>name\<close> when the input supplies it,
  and reads no other key; the write stamps \<^verbatim>\<open>updatedAt\<close>. It resolves to the updated
  organization, or to \<^verbatim>\<open>null\<close> when no organization has the id.
\<close>

definition updateOrganization ::
  "nat \<Rightarrow> oid \<Rightarrow> jsrecord \<Rightarrow> db \<Rightarrow> (error + organization option) \<times> db" where
  "updateOrganization now orgId partialFields st =
     (case organizations st orgId of
        None \<Rightarrow> (Inr None, st)
      | Some org \<Rightarrow>
          let org' = org\<lparr>org_name := (case castString (partialFields ''name'') of
                                        None \<Rightarrow> org_name org | Some s \<Rightarrow> s),
                         updatedAt := now\<rparr>
          in (Inr (Some org'), st\<lparr>organizations := (organizations st)(orgId \<mapsto> org')\<rparr>))"

section \<open>Predicates of the specification\<close>

text \<open>A team with the id exists under the organization.\<close>

definition teamExists :: "db \<Rightarrow> oid \<Rightarrow> oid \<Rightarrow> bool" where
  "teamExists st orgId teamId =
     (case organizations st orgId of None \<Rightarrow> False | Some org \<Rightarrow> hasTeam teamId org)"

text \<open>The stored user exists and holds a membership entry for the organization.\<close>

definition holdsMembership :: "db \<Rightarrow> oid \<Rightarrow> oid \<Rightarrow> bool" where
  "holdsMembership st orgId userId =
     (case users st userId of None \<Rightarrow> False | Some u \<Rightarrow> isMember orgId u)"

text \<open>
  The teams of an organization are unique by identifier, as the data model has it:
  \<^verbatim>\<open>createTeam\<close> gives every team a fresh identifier.
\<close>

definition teamIdsUnique :: "db \<Rightarrow> oid \<Rightarrow> bool" where
  "teamIdsUnique st orgId =
     (case organizations st orgId of
        None \<Rightarrow> True
      | Some org \<Rightarrow> distinct (map team_id (teams org)))"


section \<open>A concrete store\<close>

text \<open>
  The preset of the tests: user 1 created organization 5 and its team 10, and is a
  member of both.
\<close>

definition ex_team :: team where
  "ex_team = \<lparr>team_id = 10, team_name = ''core'', logoPath = Some ''logo.png'',
              team_acl = [\<lparr>ace_userId = 1, ace_role = ''TEAM_ADMIN''\<rparr>]\<rparr>"

definition ex_org :: organization where
  "ex_org = \<lparr>org_name = ''org1'',
             org_acl = [\<lparr>ace_userId = 1, ace_role = ''ORG_FULL_ADMIN''\<rparr>],
             teams = [ex_team], createdAt = 100, updatedAt = 100\<rparr>"

definition ex_user :: user where
  "ex_user = \<lparr>user_id = 1,
              organizationMemberships = [\<lparr>organizationId = 5, member_teams = [10]\<rparr>]\<rparr>"

definition ex_db :: db where
  "ex_db = \<lparr>organizations = [5 \<mapsto> ex_org], users = [1 \<mapsto> ex_user]\<rparr>"

text \<open>An update input: a new name, an empty logo path and a forged identifier.\<close>

definition ex_input :: jsrecord where
  "ex_input = (\<lambda>_. JUndefined)(''name'' := JStr ''renamed'', ''logoPath'' := JStr [],
                                 ''_id'' := JStr ''99'')"

text \<open>A second member of organization 5, in no team, and the store that holds both.\<close>

definition ex_user2 :: user where
  "ex_user2 = \<lparr>user_id = 3,
               organizationMemberships = [\<lparr>organizationId = 5, member_teams = []\<rparr>]\<rparr>"

definition ex_db2 :: db where
  "ex_db2 = \<lparr>organizations = [5 \<mapsto> ex_org], users = [1 \<mapsto> ex_user, 3 \<mapsto> ex_user2]\<rparr>"

text \<open>A user without any membership.\<close>

definition ex_outsider :: user where
  "ex_outsider = \<lparr>user_id = 2, organizationMemberships = []\<rparr>"

text \<open>Inputs: the empty object, an update with forged fields, and two valid creations.\<close>

definition ex_no_input :: jsrecord where
  "ex_no_input = (\<lambda>_. JUndefined)"

definition ex_forged :: jsrecord where
  "ex_forged = (\<lambda>_. JUndefined)(''name'' := JStr ''newOrg'', ''_id'' := JStr ''99'',
                                  ''createdAt'' := JStr ''2030'', ''updatedAt'' := JStr ''2030'')"

definition ex_org_attrs :: jsrecord where
  "ex_org_attrs = (\<lambda>_. JUndefined)(''name'' := JStr ''org2'')"

definition ex_team_attrs :: jsrecord where
  "ex_team_attrs = (\<lambda>_. JUndefined)(''name'' := JStr ''ops'')"

section \<open>Facts about the update operators\<close>

lemma truthy_castString: "truthy v \<Longrightarrow> \<exists>s. castString v = Some s"
  by (cases v) auto

lemma setTeamFields_newTeamFieldSet:
  "setTeamFields (newTeamFieldSet team) t =
     t\<lparr>team_name := (if truthy (team ''name'') then the (castString (team ''name''))
                      else team_name t),
       logoPath := (if truthy (team ''logoPath'') then castString (team ''logoPath'')
                    else logoPath t)\<rparr>"
  using truthy_castString [of "team ''name''"]
  by (auto simp: setTeamFields_def newTeamFieldSet_def TEAM_UPDATABLE_FIELDS_def setTeamField_def)

lemma updateFirst_split:
  "find P xs = Some x \<Longrightarrow>
     \<exists>pre post. xs = pre @ x # post \<and> (\<forall>y \<in> set pre. \<not> P y) \<and>
       updateFirst P f xs = pre @ f x # post"
proof (induction xs)
  case Nil
  then show ?case by simp
next
  case (Cons a xs)
  show ?case
  proof (cases "P a")
    case True
    with Cons.prems have "a = x" by simp
    with True show ?thesis by (intro exI [of _ "[]"] exI [of _ xs]) simp
  next
    case False
    with Cons obtain pre post where
      "xs = pre @ x # post" "\<forall>y \<in> set pre. \<not> P y" "updateFirst P f xs = pre @ f x # post"
      by auto
    with False show ?thesis
      by (intro exI [of _ "a # pre"] exI [of _ post]) simp
  qed
qed

lemma hasTeam_find:
  "find (\<lambda>t. team_id t = teamId) (teams org) = Some t \<Longrightarrow> hasTeam teamId org"
  unfolding hasTeam_def by (auto simp: find_Some_iff)

lemmas ex_defs = ex_db_def ex_org_def ex_team_def ex_user_def

lemmas ex2_defs = ex_db2_def ex_org_def ex_team_def ex_user_def ex_user2_def

lemma updateFirst_pre:
  "\<forall>y \<in> set pre. \<not> P y \<Longrightarrow> P x \<Longrightarrow> updateFirst P f (pre @ x # post) = pre @ f x # post"
  by (induction pre) auto



lemma filter_eq_Nil_notin: "k \<notin> f ` set xs \<Longrightarrow> filter (\<lambda>x. f x = k) xs = []"
  by (induction xs) auto

lemma distinct_filter_length:
  "distinct (map f xs) \<Longrightarrow> (length (filter (\<lambda>x. f x = k) xs) = 1) = (k \<in> f ` set xs)"
proof (induction xs)
  case Nil
  then show ?case by simp
next
  case (Cons a xs)
  show ?case
  proof (cases "f a = k")
    case True
    with Cons.prems have "k \<notin> f ` set xs" by auto
    then have "filter (\<lambda>x. f x = k) xs = []" by (rule filter_eq_Nil_notin)
    with True show ?thesis by simp
  next
    case False
    with Cons show ?thesis by auto
  qed
qed

lemma organizationTeamFound_iff:
  "teamIdsUnique st orgId \<Longrightarrow> organizationTeamFound st orgId teamId = teamExists st orgId teamId"
  by (cases "organizations st orgId")
    (auto simp: teamIdsUnique_def organizationTeamFound_def teamExists_def hasTeam_def
      distinct_filter_length [simplified])

lemma count_list_addToSet:
  "count_list (addToSet x xs) x = max 1 (count_list xs x)"
proof (cases "x \<in> set xs")
  case True
  then have "count_list xs x \<noteq> 0" by (simp only: count_list_0_iff) simp
  then have "0 < count_list xs x" by simp
  with True show ?thesis by (simp add: addToSet_def max_def)
next
  case False
  then show ?thesis by (simp add: addToSet_def count_list_0_iff)
qed

lemma set_addToSet: "set (addToSet x xs) = insert x (set xs)"
  by (auto simp: addToSet_def)

lemma filter_addToSet: "filter (\<lambda>y. y \<noteq> x) (addToSet x xs) = filter (\<lambda>y. y \<noteq> x) xs"
  by (simp add: addToSet_def)

lemma arrayFiltered_addToSet:
  "list_all2
     (\<lambda>m m'. organizationId m' = organizationId m \<and>
        (if organizationId m = orgId
         then set (member_teams m') = insert teamId (set (member_teams m)) \<and>
              count_list (member_teams m') teamId = max 1 (count_list (member_teams m) teamId) \<and>
              filter (\<lambda>x. x \<noteq> teamId) (member_teams m') =
                filter (\<lambda>x. x \<noteq> teamId) (member_teams m)
         else m' = m))
     (organizationMemberships u)
     (organizationMemberships
        (arrayFiltered orgId (\<lambda>m. m\<lparr>member_teams := addToSet teamId (member_teams m)\<rparr>) u))"
  by (auto simp: arrayFiltered_def list_all2_map2 count_list_addToSet set_addToSet
      filter_addToSet intro!: list_all2_refl)

lemma arrayFiltered_pull_absent:
  assumes "\<forall>m \<in> set (organizationMemberships u).
             organizationId m = orgId \<longrightarrow> teamId \<notin> set (member_teams m)"
  shows "arrayFiltered orgId
           (\<lambda>m. m\<lparr>member_teams := pull (\<lambda>x. x = teamId) (member_teams m)\<rparr>) u = u"
proof -
  have keep: "filter (\<lambda>x. x \<noteq> teamId) xs = xs" if "teamId \<notin> set xs" for xs :: "oid list"
    using that by (induction xs) auto
  have "map (\<lambda>m. if organizationId m = orgId
                  then m\<lparr>member_teams := pull (\<lambda>x. x = teamId) (member_teams m)\<rparr> else m)
          (organizationMemberships u) = organizationMemberships u"
    using assms by (intro map_idI) (auto simp: pull_def keep)
  then show ?thesis by (simp add: arrayFiltered_def)
qed

lemma deleteTeam_organizations:
  "organizations st orgId = Some org \<Longrightarrow>
     \<exists>org'. organizations (deleteTeam now orgId teamId st) orgId = Some org' \<and>
       teams org' = filter (\<lambda>t. team_id t \<noteq> teamId) (teams org) \<and>
       org_name org' = org_name org \<and> org_acl org' = org_acl org"
  by (auto simp: deleteTeam_def Let_def pull_def hasTeam_def filter_id_conv)

lemma deleteTeam_users:
  "users (deleteTeam now orgId teamId st) uid =
     map_option
       (\<lambda>u. if isMember orgId u
            then arrayFiltered orgId
                   (\<lambda>m. m\<lparr>member_teams := pull (\<lambda>x. x = teamId) (member_teams m)\<rparr>) u
            else u)
       (users st uid)"
  by (simp add: deleteTeam_def Let_def split: option.splits)

lemma arrayFiltered_pull:
  "list_all2
     (\<lambda>m m'. organizationId m' = organizationId m \<and>
        member_teams m' =
          (if organizationId m = orgId then filter (\<lambda>x. x \<noteq> teamId) (member_teams m)
           else member_teams m))
     (organizationMemberships u)
     (organizationMemberships
        (if isMember orgId u
         then arrayFiltered orgId
                (\<lambda>m. m\<lparr>member_teams := pull (\<lambda>x. x = teamId) (member_teams m)\<rparr>) u
         else u))"
  by (auto simp: arrayFiltered_def isMember_def list_all2_map2 pull_def list_all2_same)

lemma updateNestedACL_run:
  assumes "organizations st orgId = Some org"
    and "teams org = pre @ t # post" and "\<forall>y \<in> set pre. team_id y \<noteq> nid" and "team_id t = nid"
  shows "updateNestedACL now orgId nid f st =
     (Inr (org\<lparr>teams := pre @ t\<lparr>team_acl := f (team_acl t)\<rparr> # post, updatedAt := now\<rparr>),
      st\<lparr>organizations := (organizations st)(orgId \<mapsto>
           org\<lparr>teams := pre @ t\<lparr>team_acl := f (team_acl t)\<rparr> # post, updatedAt := now\<rparr>)\<rparr>)"
proof -
  have "hasTeam nid org" using assms(2,4) by (auto simp: hasTeam_def)
  moreover have "updateFirst (\<lambda>t. team_id t = nid) (\<lambda>t. t\<lparr>team_acl := f (team_acl t)\<rparr>) (teams org)
      = pre @ t\<lparr>team_acl := f (team_acl t)\<rparr> # post"
    using assms(2,3,4) by (simp add: updateFirst_pre)
  ultimately show ?thesis using assms(1) by (simp add: updateNestedACL_def Let_def)
qed


lemma castTeam_Some:
  "castTeam newId team = Some newTeam \<Longrightarrow> team_id newTeam = newId \<and> team_acl newTeam = []"
  by (auto simp: castTeam_def split: option.splits if_splits)

section \<open>Uniqueness of team ids\<close>

text \<open>
  The operations keep the teams of every organization unique by id: a new organization
  starts without teams, \<^verbatim>\<open>createTeam\<close> adds a team under a fresh identifier, and the
  other operations do not change the identifiers of the teams.
\<close>

lemma map_team_id_updateFirst:
  "(\<And>t. team_id (f t) = team_id t) \<Longrightarrow> map team_id (updateFirst P f ts) = map team_id ts"
  by (induction ts) auto

lemma team_id_setTeamFields: "team_id (setTeamFields fs t) = team_id t"
proof -
  have "team_id (fold setTeamField fs t) = team_id t"
    by (induction fs arbitrary: t) (auto simp: setTeamField_def split: option.splits)
  then show ?thesis by (simp add: setTeamFields_def)
qed

lemma teamIdsUnique_updateTeam:
  "teamIdsUnique st k \<Longrightarrow> teamIdsUnique (snd (updateTeam now orgId teamId team st)) k"
  by (auto simp: teamIdsUnique_def updateTeam_def Let_def map_team_id_updateFirst
      team_id_setTeamFields split: option.splits)

lemma teamIdsUnique_deleteTeam:
  "teamIdsUnique st k \<Longrightarrow> teamIdsUnique (deleteTeam now orgId teamId st) k"
  by (auto simp: teamIdsUnique_def deleteTeam_def Let_def pull_def distinct_map_filter
      split: option.splits)

lemma teamIdsUnique_updateNestedACL:
  "teamIdsUnique st k \<Longrightarrow> teamIdsUnique (snd (updateNestedACL now orgId nid f st)) k"
  by (auto simp: teamIdsUnique_def updateNestedACL_def Let_def map_team_id_updateFirst
      split: option.splits)

lemma teamIdsUnique_createTeam:
  assumes "teamIdsUnique st k"
    and "\<forall>org. organizations st orgId = Some org \<longrightarrow> newId \<notin> team_id ` set (teams org)"
  shows "teamIdsUnique (snd (createTeam newId now orgId team creatorId st)) k"
proof (cases "castTeam newId team")
  case None
  with assms(1) show ?thesis by (simp add: createTeam_def)
next
  case (Some newTeam)
  then have nid: "team_id newTeam = newId" by (simp add: castTeam_Some)
  show ?thesis
  proof (cases "organizations st orgId")
    case None
    with Some assms(1) show ?thesis by (simp add: createTeam_def)
  next
    case (Some org)
    let ?st1 = "st\<lparr>organizations := (organizations st)(orgId \<mapsto>
        org\<lparr>teams := addToSet newTeam (teams org), updatedAt := now\<rparr>)\<rparr>"
    from assms(2) Some nid have "newTeam \<notin> set (teams org)" by auto
    with assms Some nid have "teamIdsUnique ?st1 k"
      by (auto simp: teamIdsUnique_def addToSet_def split: option.splits)
    then have "teamIdsUnique
        (snd (updateNestedACL now orgId newId (setRole TEAM_ADMIN creatorId) ?st1)) k"
      by (rule teamIdsUnique_updateNestedACL)
    with Some \<open>castTeam newId team = Some newTeam\<close> show ?thesis
      by (simp add: createTeam_def setNestedUserRole_def Let_def)
  qed
qed

lemma teamIdsUnique_addUserToTeam:
  "teamIdsUnique st k \<Longrightarrow> teamIdsUnique (snd (addUserToTeam orgId teamId userId st)) k"
  by (auto simp: teamIdsUnique_def addUserToTeam_def split: option.splits)

lemma teamIdsUnique_removeUserFromTeam:
  "teamIdsUnique st k \<Longrightarrow> teamIdsUnique (snd (removeUserFromTeam orgId teamId userId st)) k"
  by (auto simp: teamIdsUnique_def removeUserFromTeam_def split: option.splits)

section \<open>Authorization of non-members\<close>

text \<open>
  C1. A user without a membership entry for an organization is not authorized for it,
  whatever the required roles are, \<^verbatim>\<open>undefined\<close> included.
\<close>

theorem isAuthorized_non_member:
  assumes "\<not> isMember orgId u"
  shows "isAuthorized st orgId requiredRoles u = False"
proof -
  from assms have "find (\<lambda>m. organizationId m = orgId) (organizationMemberships u) = None"
    by (auto simp: isMember_def find_None_iff)
  then show ?thesis by (simp add: isAuthorized_def)
qed

text \<open>
  The outsider of the examples is refused without a role filter and with one.
\<close>

theorem isAuthorized_non_member_witness:
  "\<not> isMember 5 ex_outsider \<and>
   isAuthorized ex_db 5 None ex_outsider = False \<and>
   isAuthorized ex_db 5 (Some [''ORG_ADMIN'']) ex_outsider = False"
proof -
  have h: "\<not> isMember 5 ex_outsider" by (simp add: isMember_def ex_outsider_def)
  from isAuthorized_non_member [OF h, of ex_db None]
    isAuthorized_non_member [OF h, of ex_db "Some [''ORG_ADMIN'']"] h
  show ?thesis by simp
qed

section \<open>createOrganization\<close>

text \<open>
  C2. When \<^verbatim>\<open>createOrganization\<close> succeeds, the access-control list of the organization
  it returns has exactly one entry, the creator's with the role \<^verbatim>\<open>ORG_FULL_ADMIN\<close>, and
  the organization is stored under the new identifier.
\<close>

theorem createOrganization_acl:
  assumes "createOrganization newId now attrs creatorId st = (Inr createdOrg, st')"
  shows "org_acl createdOrg = [\<lparr>ace_userId = creatorId, ace_role = ''ORG_FULL_ADMIN''\<rparr>] \<and>
         organizations st' newId = Some createdOrg"
  using assms
  by (auto simp: createOrganization_def grantOnCreate_def addUserToOrganization_def
      setRole_def ORG_FULL_ADMIN_def Let_def
      split: option.splits if_splits prod.splits sum.splits)

text \<open>
  User 1 creates a second organization on the preset.
\<close>

theorem createOrganization_acl_witness:
  "fst (createOrganization 6 300 ex_org_attrs 1 ex_db) =
     Inr \<lparr>org_name = ''org2'', org_acl = [\<lparr>ace_userId = 1, ace_role = ''ORG_FULL_ADMIN''\<rparr>],
          teams = [], createdAt = 300, updatedAt = 300\<rparr>"
proof -
  obtain r st' where r: "createOrganization 6 300 ex_org_attrs 1 ex_db = (r, st')"
    by (cases "createOrganization 6 300 ex_org_attrs 1 ex_db")
  then have "\<exists>createdOrg. r = Inr createdOrg \<and> org_name createdOrg = ''org2'' \<and>
      teams createdOrg = [] \<and> createdAt createdOrg = 300 \<and> updatedAt createdOrg = 300"
    by (auto simp: createOrganization_def grantOnCreate_def addUserToOrganization_def Let_def
        isMember_def ex_org_attrs_def ex_defs split: if_splits)
  then obtain createdOrg where c: "r = Inr createdOrg" "org_name createdOrg = ''org2''"
      "teams createdOrg = []" "createdAt createdOrg = 300" "updatedAt createdOrg = 300"
    by blast
  from createOrganization_acl [OF r [unfolded c(1)]] c r show ?thesis by simp
qed

section \<open>Roles inherited through a team\<close>



section \<open>deleteTeam\<close>

text \<open>
  C4. \<^verbatim>\<open>deleteTeam\<close> removes the team from the teams of the organization and the
  team's id from the team ids of every membership for the organization, of every user.
  The membership entries stay in place, each for the organization it was for, the
  team ids of memberships for other organizations are unchanged, and no user document
  appears or disappears.
\<close>

theorem deleteTeam_cascade:
  "(\<forall>org. organizations st orgId = Some org \<longrightarrow>
      (\<exists>org'. organizations (deleteTeam now orgId teamId st) orgId = Some org' \<and>
         teams org' = filter (\<lambda>t. team_id t \<noteq> teamId) (teams org) \<and>
         teamId \<notin> team_id ` set (teams org'))) \<and>
   (\<forall>uid u. users st uid = Some u \<longrightarrow>
      (\<exists>u'. users (deleteTeam now orgId teamId st) uid = Some u' \<and>
         user_id u' = user_id u \<and>
         list_all2
           (\<lambda>m m'. organizationId m' = organizationId m \<and>
              member_teams m' =
                (if organizationId m = orgId then filter (\<lambda>x. x \<noteq> teamId) (member_teams m)
                 else member_teams m))
           (organizationMemberships u) (organizationMemberships u') \<and>
         (\<forall>m' \<in> set (organizationMemberships u').
            organizationId m' = orgId \<longrightarrow> teamId \<notin> set (member_teams m')))) \<and>
   dom (users (deleteTeam now orgId teamId st)) = dom (users st)"
proof -
  have orgs: "\<exists>org'. organizations (deleteTeam now orgId teamId st) orgId = Some org' \<and>
         teams org' = filter (\<lambda>t. team_id t \<noteq> teamId) (teams org) \<and>
         teamId \<notin> team_id ` set (teams org')"
    if "organizations st orgId = Some org" for org
    using deleteTeam_organizations [OF that, of now teamId] by auto
  have usr: "\<exists>u'. users (deleteTeam now orgId teamId st) uid = Some u' \<and>
         user_id u' = user_id u \<and>
         list_all2
           (\<lambda>m m'. organizationId m' = organizationId m \<and>
              member_teams m' =
                (if organizationId m = orgId then filter (\<lambda>x. x \<noteq> teamId) (member_teams m)
                 else member_teams m))
           (organizationMemberships u) (organizationMemberships u') \<and>
         (\<forall>m' \<in> set (organizationMemberships u').
            organizationId m' = orgId \<longrightarrow> teamId \<notin> set (member_teams m'))"
    if u: "users st uid = Some u" for uid u
  proof -
    let ?u' = "if isMember orgId u
         then arrayFiltered orgId
                (\<lambda>m. m\<lparr>member_teams := pull (\<lambda>x. x = teamId) (member_teams m)\<rparr>) u
         else u"
    have 1: "users (deleteTeam now orgId teamId st) uid = Some ?u'"
      using u by (simp add: deleteTeam_users)
    have 2: "user_id ?u' = user_id u" by (simp add: arrayFiltered_def)
    have 3: "\<forall>m' \<in> set (organizationMemberships ?u').
            organizationId m' = orgId \<longrightarrow> teamId \<notin> set (member_teams m')"
      by (auto simp: arrayFiltered_def isMember_def pull_def)
    from 1 2 3 arrayFiltered_pull [of orgId teamId u] show ?thesis by blast
  qed
  have "dom (users (deleteTeam now orgId teamId st)) = dom (users st)"
    by (auto simp: deleteTeam_users dom_def)
  with orgs usr show ?thesis by blast
qed

text \<open>
  Deleting team 10 of the preset empties the teams of organization 5 and the team ids
  of user 1, whose membership remains.
\<close>

theorem deleteTeam_cascade_witness:
  "organizations ex_db2 5 = Some ex_org \<and> users ex_db2 1 = Some ex_user \<and>
   (\<exists>org' u'. organizations (deleteTeam 200 5 10 ex_db2) 5 = Some org' \<and> teams org' = [] \<and>
      users (deleteTeam 200 5 10 ex_db2) 1 = Some u' \<and>
      organizationMemberships u' = [\<lparr>organizationId = 5, member_teams = []\<rparr>])"
proof -
  have h1: "organizations ex_db2 5 = Some ex_org" by (simp add: ex_db2_def)
  have h2: "users ex_db2 1 = Some ex_user" by (simp add: ex_db2_def)
  from deleteTeam_cascade [of ex_db2 5 200 10] h1
  obtain org' where o: "organizations (deleteTeam 200 5 10 ex_db2) 5 = Some org'"
    "teams org' = filter (\<lambda>t. team_id t \<noteq> 10) (teams ex_org)"
    by blast
  from deleteTeam_cascade [of ex_db2 5 200 10] h2
  obtain u' where u: "users (deleteTeam 200 5 10 ex_db2) 1 = Some u'"
    "list_all2
           (\<lambda>m m'. organizationId m' = organizationId m \<and>
              member_teams m' =
                (if organizationId m = 5 then filter (\<lambda>x. x \<noteq> 10) (member_teams m)
                 else member_teams m))
           (organizationMemberships ex_user) (organizationMemberships u')"
    by blast
  from u(2) have "organizationMemberships u' = [\<lparr>organizationId = 5, member_teams = []\<rparr>]"
    by (auto simp: ex_user_def list_all2_Cons1)
  with o u(1) h1 h2 show ?thesis by (simp add: ex_org_def ex_team_def)
qed

section \<open>createTeam\<close>

text \<open>
  C5, as stated, fails: an input without a name is rejected by the validators of the
  team schema, so \<^verbatim>\<open>createTeam\<close> raises \<^verbatim>\<open>ValidationError\<close> and writes nothing, both
  for organization 6, which does not exist, and for organization 5, which does.
\<close>

theorem createTeam_counterexample:
  "organizations ex_db 6 = None \<and> organizations ex_db 5 = Some ex_org \<and>
   createTeam 11 200 6 ex_no_input 1 ex_db = (Inl ValidationError, ex_db) \<and>
   createTeam 11 200 5 ex_no_input 1 ex_db = (Inl ValidationError, ex_db)"
  by (simp add: createTeam_def castTeam_def ex_no_input_def ex_db_def)

text \<open>
  C5, amended. For an input that passes the validation of the team schema:
  \<^verbatim>\<open>createTeam\<close> fails with \<^verbatim>\<open>NotFound\<close> and writes nothing when the organization
  does not exist; when it exists (and the new identifier is fresh in it), the new team is
  appended with an access-control list of exactly one entry, the creator's with the team
  role \<^verbatim>\<open>TEAM_ADMIN\<close>, and the organization's own list is unchanged.
\<close>

theorem createTeam_seeds_team_admin:
  assumes valid: "castTeam newId team = Some newTeam"
  shows "(organizations st orgId = None \<longrightarrow>
            createTeam newId now orgId team creatorId st = (Inl NotFound, st)) \<and>
         (\<forall>org. organizations st orgId = Some org \<and> newId \<notin> team_id ` set (teams org) \<longrightarrow>
            (\<exists>org' t.
               createTeam newId now orgId team creatorId st =
                 (Inr org', st\<lparr>organizations := (organizations st)(orgId \<mapsto> org')\<rparr>) \<and>
               teams org' = teams org @ [t] \<and> team_id t = newId \<and>
               team_name t = team_name newTeam \<and> logoPath t = logoPath newTeam \<and>
               team_acl t = [\<lparr>ace_userId = creatorId, ace_role = ''TEAM_ADMIN''\<rparr>] \<and>
               org_acl org' = org_acl org \<and> org_name org' = org_name org))"
proof -
  have nf: "createTeam newId now orgId team creatorId st = (Inl NotFound, st)"
    if "organizations st orgId = None"
    using that valid by (simp add: createTeam_def)
  have ok: "\<exists>org' t.
               createTeam newId now orgId team creatorId st =
                 (Inr org', st\<lparr>organizations := (organizations st)(orgId \<mapsto> org')\<rparr>) \<and>
               teams org' = teams org @ [t] \<and> team_id t = newId \<and>
               team_name t = team_name newTeam \<and> logoPath t = logoPath newTeam \<and>
               team_acl t = [\<lparr>ace_userId = creatorId, ace_role = ''TEAM_ADMIN''\<rparr>] \<and>
               org_acl org' = org_acl org \<and> org_name org' = org_name org"
    if org: "organizations st orgId = Some org" and fresh: "newId \<notin> team_id ` set (teams org)"
    for org
  proof -
    from castTeam_Some [OF valid] have nt: "team_id newTeam = newId" "team_acl newTeam = []"
      by simp_all
    from fresh nt(1) have "newTeam \<notin> set (teams org)" by auto
    then have add: "addToSet newTeam (teams org) = teams org @ [newTeam]"
      by (simp add: addToSet_def)
    let ?upd = "org\<lparr>teams := teams org @ [newTeam], updatedAt := now\<rparr>"
    let ?st1 = "st\<lparr>organizations := (organizations st)(orgId \<mapsto> ?upd)\<rparr>"
    let ?t = "newTeam\<lparr>team_acl := setRole TEAM_ADMIN creatorId (team_acl newTeam)\<rparr>"
    let ?org' = "?upd\<lparr>teams := teams org @ ?t # [], updatedAt := now\<rparr>"
    have "updateNestedACL now orgId newId (setRole TEAM_ADMIN creatorId) ?st1 =
        (Inr ?org', ?st1\<lparr>organizations := (organizations ?st1)(orgId \<mapsto> ?org')\<rparr>)"
    proof (rule updateNestedACL_run)
      show "organizations ?st1 orgId = Some ?upd" by simp
      show "teams ?upd = teams org @ newTeam # []" by simp
      show "\<forall>y \<in> set (teams org). team_id y \<noteq> newId" using fresh by blast
      show "team_id newTeam = newId" by (rule nt(1))
    qed
    then have run: "createTeam newId now orgId team creatorId st =
        (Inr ?org', st\<lparr>organizations := (organizations st)(orgId \<mapsto> ?org')\<rparr>)"
      using valid org add by (simp add: createTeam_def setNestedUserRole_def Let_def)
    show ?thesis
      apply (rule exI [of _ ?org'], rule exI [of _ ?t])
      using run nt by (simp add: setRole_def TEAM_ADMIN_def)
  qed
  from nf ok show ?thesis by blast
qed

text \<open>
  User 1 creates the team \<^verbatim>\<open>ops\<close> in organization 5, and fails to in organization 6.
\<close>

theorem createTeam_seeds_team_admin_witness:
  "organizations ex_db 6 = None \<and>
   createTeam 11 200 6 ex_team_attrs 1 ex_db = (Inl NotFound, ex_db) \<and>
   organizations ex_db 5 = Some ex_org \<and>
   (\<exists>org'. fst (createTeam 11 200 5 ex_team_attrs 1 ex_db) = Inr org' \<and>
      teams org' = [ex_team, \<lparr>team_id = 11, team_name = ''ops'', logoPath = None,
                     team_acl = [\<lparr>ace_userId = 1, ace_role = ''TEAM_ADMIN''\<rparr>]\<rparr>])"
proof -
  let ?nt = "\<lparr>team_id = 11, team_name = ''ops'', logoPath = None, team_acl = []\<rparr>"
  have v: "castTeam 11 ex_team_attrs = Some ?nt"
    by (simp add: castTeam_def ex_team_attrs_def)
  have h1: "organizations ex_db 6 = None" by (simp add: ex_db_def)
  have h2: "organizations ex_db 5 = Some ex_org \<and> 11 \<notin> team_id ` set (teams ex_org)"
    by (simp add: ex_defs)
  from createTeam_seeds_team_admin [OF v, of ex_db 6 200 1] h1
  have a: "createTeam 11 200 6 ex_team_attrs 1 ex_db = (Inl NotFound, ex_db)" by blast
  from createTeam_seeds_team_admin [OF v, of ex_db 5 200 1] h2
  obtain org' t where
    "fst (createTeam 11 200 5 ex_team_attrs 1 ex_db) = Inr org'"
    "teams org' = teams ex_org @ [t]" "team_id t = 11" "team_name t = ''ops''"
    "logoPath t = None" "team_acl t = [\<lparr>ace_userId = 1, ace_role = ''TEAM_ADMIN''\<rparr>]"
    by auto
  then have "fst (createTeam 11 200 5 ex_team_attrs 1 ex_db) = Inr org' \<and>
      teams org' = [ex_team, \<lparr>team_id = 11, team_name = ''ops'', logoPath = None,
                     team_acl = [\<lparr>ace_userId = 1, ace_role = ''TEAM_ADMIN''\<rparr>]\<rparr>]"
    by (cases t) (simp add: ex_org_def)
  with h1 h2 a show ?thesis by blast
qed

section \<open>addUserToTeam\<close>

text \<open>
  C6. In an organization whose teams are unique by id, \<^verbatim>\<open>addUserToTeam\<close> raises
  \<^verbatim>\<open>NotFound\<close> exactly when the team does not exist under the organization or the
  user holds no membership entry for it. Otherwise it succeeds and changes only the
  user's memberships for the organization: the team id is among their team ids
  afterwards, as many times as before when it was there and once when it was not, and
  their other team ids are unchanged.
\<close>

theorem addUserToTeam_NotFound_iff:
  assumes uniq: "teamIdsUnique st orgId"
  shows "(fst (addUserToTeam orgId teamId userId st) = Inl NotFound) =
           (\<not> teamExists st orgId teamId \<or> \<not> holdsMembership st orgId userId) \<and>
         (teamExists st orgId teamId \<and> holdsMembership st orgId userId \<longrightarrow>
           (\<exists>u u'. users st userId = Some u \<and>
              addUserToTeam orgId teamId userId st =
                (Inr (), st\<lparr>users := (users st)(userId \<mapsto> u')\<rparr>) \<and>
              user_id u' = user_id u \<and>
              list_all2
                (\<lambda>m m'. organizationId m' = organizationId m \<and>
                   (if organizationId m = orgId
                    then set (member_teams m') = insert teamId (set (member_teams m)) \<and>
                         count_list (member_teams m') teamId =
                           max 1 (count_list (member_teams m) teamId) \<and>
                         filter (\<lambda>x. x \<noteq> teamId) (member_teams m') =
                           filter (\<lambda>x. x \<noteq> teamId) (member_teams m)
                    else m' = m))
                (organizationMemberships u) (organizationMemberships u')))"
proof -
  have found: "organizationTeamFound st orgId teamId = teamExists st orgId teamId"
    using uniq by (rule organizationTeamFound_iff)
  have iff: "(fst (addUserToTeam orgId teamId userId st) = Inl NotFound) =
           (\<not> teamExists st orgId teamId \<or> \<not> holdsMembership st orgId userId)"
    by (auto simp: addUserToTeam_def found holdsMembership_def split: option.splits)
  have ok: "\<exists>u u'. users st userId = Some u \<and>
              addUserToTeam orgId teamId userId st =
                (Inr (), st\<lparr>users := (users st)(userId \<mapsto> u')\<rparr>) \<and>
              user_id u' = user_id u \<and>
              list_all2
                (\<lambda>m m'. organizationId m' = organizationId m \<and>
                   (if organizationId m = orgId
                    then set (member_teams m') = insert teamId (set (member_teams m)) \<and>
                         count_list (member_teams m') teamId =
                           max 1 (count_list (member_teams m) teamId) \<and>
                         filter (\<lambda>x. x \<noteq> teamId) (member_teams m') =
                           filter (\<lambda>x. x \<noteq> teamId) (member_teams m)
                    else m' = m))
                (organizationMemberships u) (organizationMemberships u')"
    if te: "teamExists st orgId teamId" and hm: "holdsMembership st orgId userId"
  proof -
    from hm obtain u where u: "users st userId = Some u" "isMember orgId u"
      by (auto simp: holdsMembership_def split: option.splits)
    let ?u' = "arrayFiltered orgId (\<lambda>m. m\<lparr>member_teams := addToSet teamId (member_teams m)\<rparr>) u"
    have run: "addUserToTeam orgId teamId userId st =
        (Inr (), st\<lparr>users := (users st)(userId \<mapsto> ?u')\<rparr>)"
      using te u by (simp add: addUserToTeam_def found)
    have id: "user_id ?u' = user_id u" by (simp add: arrayFiltered_def)
    show ?thesis
      apply (rule exI [of _ u], rule exI [of _ ?u'])
      using u(1) run id arrayFiltered_addToSet [of orgId teamId u] by simp
  qed
  from iff ok show ?thesis by blast
qed

text \<open>
  On the store with two members: user 3 joins team 10, user 1 is in it already and
  stays unchanged, team 11 and user 2 are not found.
\<close>

theorem addUserToTeam_NotFound_iff_witness:
  "teamIdsUnique ex_db2 5 \<and> teamExists ex_db2 5 10 \<and> holdsMembership ex_db2 5 3 \<and>
   holdsMembership ex_db2 5 1 \<and>
   fst (addUserToTeam 5 10 3 ex_db2) = Inr () \<and>
   users (snd (addUserToTeam 5 10 3 ex_db2)) 3 =
     Some (ex_user2\<lparr>organizationMemberships := [\<lparr>organizationId = 5, member_teams = [10]\<rparr>]\<rparr>) \<and>
   users (snd (addUserToTeam 5 10 1 ex_db2)) 1 = Some ex_user \<and>
   fst (addUserToTeam 5 11 3 ex_db2) = Inl NotFound \<and>
   fst (addUserToTeam 5 10 2 ex_db2) = Inl NotFound"
proof -
  have h: "teamIdsUnique ex_db2 5" by (simp add: teamIdsUnique_def ex2_defs)
  have te: "teamExists ex_db2 5 10" "\<not> teamExists ex_db2 5 11"
    by (simp_all add: teamExists_def hasTeam_def ex2_defs)
  have hm: "holdsMembership ex_db2 5 3" "holdsMembership ex_db2 5 1" "\<not> holdsMembership ex_db2 5 2"
    by (simp_all add: holdsMembership_def isMember_def ex2_defs)
  from addUserToTeam_NotFound_iff [OF h, of 10 3] te hm
  have a: "fst (addUserToTeam 5 10 3 ex_db2) \<noteq> Inl NotFound" by blast
  from addUserToTeam_NotFound_iff [OF h, of 11 3] te
  have b: "fst (addUserToTeam 5 11 3 ex_db2) = Inl NotFound" by blast
  from addUserToTeam_NotFound_iff [OF h, of 10 2] hm
  have c: "fst (addUserToTeam 5 10 2 ex_db2) = Inl NotFound" by blast
  have d: "fst (addUserToTeam 5 10 3 ex_db2) = Inr ()"
    using a by (cases "fst (addUserToTeam 5 10 3 ex_db2)") (auto simp: addUserToTeam_def split: if_splits option.splits)
  have e: "users (snd (addUserToTeam 5 10 3 ex_db2)) 3 =
     Some (ex_user2\<lparr>organizationMemberships := [\<lparr>organizationId = 5, member_teams = [10]\<rparr>]\<rparr>)"
    "users (snd (addUserToTeam 5 10 1 ex_db2)) 1 = Some ex_user"
    by (simp_all add: addUserToTeam_def organizationTeamFound_def isMember_def arrayFiltered_def
        addToSet_def ex2_defs)
  from h te hm b c d e show ?thesis by simp
qed

section \<open>removeUserFromTeam\<close>

text \<open>
  C7. In an organization whose teams are unique by id: for an existing team and a
  member of the organization whose team ids do not contain the team,
  \<^verbatim>\<open>removeUserFromTeam\<close> succeeds and leaves the store as it was; and when it raises,
  it raises \<^verbatim>\<open>NotFound\<close>, and the team does not exist under the organization or the
  user holds no membership entry for it.
\<close>

theorem removeUserFromTeam_absent_noop:
  assumes uniq: "teamIdsUnique st orgId"
  shows "(teamExists st orgId teamId \<and> users st userId = Some u \<and> isMember orgId u \<and>
            (\<forall>m \<in> set (organizationMemberships u).
               organizationId m = orgId \<longrightarrow> teamId \<notin> set (member_teams m)) \<longrightarrow>
          removeUserFromTeam orgId teamId userId st = (Inr (), st)) \<and>
         (\<forall>e. fst (removeUserFromTeam orgId teamId userId st) = Inl e \<longrightarrow>
            e = NotFound \<and>
            (\<not> teamExists st orgId teamId \<or> \<not> holdsMembership st orgId userId))"
proof -
  have found: "organizationTeamFound st orgId teamId = teamExists st orgId teamId"
    using uniq by (rule organizationTeamFound_iff)
  have noop: "removeUserFromTeam orgId teamId userId st = (Inr (), st)"
    if "teamExists st orgId teamId" and u: "users st userId = Some u" and "isMember orgId u"
      and "\<forall>m \<in> set (organizationMemberships u).
             organizationId m = orgId \<longrightarrow> teamId \<notin> set (member_teams m)"
  proof -
    from u have "(users st)(userId \<mapsto> u) = users st" by (rule map_upd_triv)
    with that show ?thesis
      by (simp add: removeUserFromTeam_def found arrayFiltered_pull_absent)
  qed
  have err: "e = NotFound \<and>
      (\<not> teamExists st orgId teamId \<or> \<not> holdsMembership st orgId userId)"
    if "fst (removeUserFromTeam orgId teamId userId st) = Inl e" for e
    using that
    by (auto simp: removeUserFromTeam_def found holdsMembership_def
        split: option.splits if_splits)
  from noop err show ?thesis by blast
qed

text \<open>
  User 3 is in no team: removing the user from team 10 changes nothing, and team 11 is
  not found.
\<close>

theorem removeUserFromTeam_absent_noop_witness:
  "teamIdsUnique ex_db2 5 \<and> teamExists ex_db2 5 10 \<and> users ex_db2 3 = Some ex_user2 \<and>
   isMember 5 ex_user2 \<and> member_teams (hd (organizationMemberships ex_user2)) = [] \<and>
   removeUserFromTeam 5 10 3 ex_db2 = (Inr (), ex_db2) \<and>
   fst (removeUserFromTeam 5 11 3 ex_db2) = Inl NotFound \<and> \<not> teamExists ex_db2 5 11"
proof -
  have h: "teamIdsUnique ex_db2 5" by (simp add: teamIdsUnique_def ex2_defs)
  have te: "teamExists ex_db2 5 10" "\<not> teamExists ex_db2 5 11"
    by (simp_all add: teamExists_def hasTeam_def ex2_defs)
  have u: "users ex_db2 3 = Some ex_user2" by (simp add: ex_db2_def)
  have im: "isMember 5 ex_user2" by (simp add: isMember_def ex_user2_def)
  have ab: "\<forall>m \<in> set (organizationMemberships ex_user2).
             organizationId m = 5 \<longrightarrow> 10 \<notin> set (member_teams m)"
    by (simp add: ex_user2_def)
  from removeUserFromTeam_absent_noop [OF h, of 10 3 ex_user2] te u im ab
  have a: "removeUserFromTeam 5 10 3 ex_db2 = (Inr (), ex_db2)" by blast
  have b: "fst (removeUserFromTeam 5 11 3 ex_db2) = Inl NotFound"
    by (simp add: removeUserFromTeam_def organizationTeamFound_def ex2_defs)
  have "member_teams (hd (organizationMemberships ex_user2)) = []" by (simp add: ex_user2_def)
  with h te u im a b show ?thesis by simp
qed

section \<open>updateOrganization\<close>

text \<open>
  C8. \<^verbatim>\<open>updateOrganization\<close> on an existing organization succeeds and rewrites only
  the document under the given id. The creation time, the access-control list and the
  teams are unchanged, the name is the input's when the input supplies one, and every
  other key of the input is ignored: the result is that of the input reduced to its
  \<^verbatim>\<open>name\<close>.
\<close>

theorem updateOrganization_allow_list:
  assumes "organizations st orgId = Some org"
  shows "\<exists>org'. updateOrganization now orgId partialFields st =
            (Inr (Some org'), st\<lparr>organizations := (organizations st)(orgId \<mapsto> org')\<rparr>) \<and>
          createdAt org' = createdAt org \<and> org_acl org' = org_acl org \<and>
          teams org' = teams org \<and>
          org_name org' = (case castString (partialFields ''name'') of
                             None \<Rightarrow> org_name org | Some s \<Rightarrow> s) \<and>
          updateOrganization now orgId partialFields st =
            updateOrganization now orgId ((\<lambda>_. JUndefined)(''name'' := partialFields ''name'')) st"
  using assms by (simp add: updateOrganization_def Let_def)

text \<open>
  An update of the preset with a new name and forged \<^verbatim>\<open>_id\<close>, \<^verbatim>\<open>createdAt\<close> and
  \<^verbatim>\<open>updatedAt\<close>.
\<close>

theorem updateOrganization_allow_list_witness:
  "organizations ex_db 5 = Some ex_org \<and>
   fst (updateOrganization 200 5 ex_forged ex_db) =
     Inr (Some (ex_org\<lparr>org_name := ''newOrg'', updatedAt := 200\<rparr>)) \<and>
   createdAt ex_org = 100"
proof -
  have h: "organizations ex_db 5 = Some ex_org" by (simp add: ex_db_def)
  from updateOrganization_allow_list [OF h, of 200 ex_forged]
  obtain org' where o: "fst (updateOrganization 200 5 ex_forged ex_db) = Inr (Some org')"
    "createdAt org' = createdAt ex_org" "org_acl org' = org_acl ex_org"
    "teams org' = teams ex_org"
    "org_name org' = (case castString (ex_forged ''name'') of
                             None \<Rightarrow> org_name ex_org | Some s \<Rightarrow> s)"
    by auto
  have "fst (updateOrganization 200 5 ex_forged ex_db) =
     Inr (Some (ex_org\<lparr>org_name := ''newOrg'', updatedAt := 200\<rparr>))"
    using h by (simp add: updateOrganization_def ex_forged_def Let_def)
  with h o show ?thesis by (simp add: ex_org_def)
qed

section \<open>updateTeam\<close>

text \<open>
  C9. \<^verbatim>\<open>updateTeam\<close> on an organization that has the team rewrites the first team with
  that id and nothing else of the team array. Of the input it applies \<^verbatim>\<open>name\<close> and
  \<^verbatim>\<open>logoPath\<close> only, and each of them only when it is bound to a truthy value: a
  field bound to a falsy value keeps its stored value. The team's id and access-control
  list, and the organization's name, access-control list and creation time, are
  unchanged; no other document of the store changes.
\<close>

theorem updateTeam_allow_list:
  assumes org: "organizations st orgId = Some org"
    and t: "find (\<lambda>t. team_id t = teamId) (teams org) = Some t"
  shows "\<exists>org' st' pre post t'.
      updateTeam now orgId teamId team st = (Inr (Some org'), st') \<and>
      organizations st' = (organizations st)(orgId \<mapsto> org') \<and> users st' = users st \<and>
      org_name org' = org_name org \<and> org_acl org' = org_acl org \<and>
      createdAt org' = createdAt org \<and>
      teams org = pre @ t # post \<and> teams org' = pre @ t' # post \<and>
      (\<forall>x \<in> set pre. team_id x \<noteq> teamId) \<and>
      team_id t' = team_id t \<and> team_acl t' = team_acl t \<and>
      (truthy (team ''name'') \<longrightarrow> castString (team ''name'') = Some (team_name t')) \<and>
      (\<not> truthy (team ''name'') \<longrightarrow> team_name t' = team_name t) \<and>
      (truthy (team ''logoPath'') \<longrightarrow> castString (team ''logoPath'') = logoPath t') \<and>
      (\<not> truthy (team ''logoPath'') \<longrightarrow> logoPath t' = logoPath t)"
proof -
  let ?P = "\<lambda>t. team_id t = teamId"
  let ?f = "setTeamFields (newTeamFieldSet team)"
  from updateFirst_split [OF t, of ?f] obtain pre post where
    sp: "teams org = pre @ t # post" "\<forall>y \<in> set pre. team_id y \<noteq> teamId"
      "updateFirst ?P ?f (teams org) = pre @ ?f t # post"
    by blast
  have has: "hasTeam teamId org" using t by (rule hasTeam_find)
  let ?org' = "org\<lparr>teams := pre @ ?f t # post, updatedAt := now\<rparr>"
  have run: "updateTeam now orgId teamId team st =
      (Inr (Some ?org'), st\<lparr>organizations := (organizations st)(orgId \<mapsto> ?org')\<rparr>)"
    using org has sp(3) by (simp add: updateTeam_def Let_def)
  have fields: "team_id (?f t) = team_id t" "team_acl (?f t) = team_acl t"
    "truthy (team ''name'') \<longrightarrow> castString (team ''name'') = Some (team_name (?f t))"
    "\<not> truthy (team ''name'') \<longrightarrow> team_name (?f t) = team_name t"
    "truthy (team ''logoPath'') \<longrightarrow> castString (team ''logoPath'') = logoPath (?f t)"
    "\<not> truthy (team ''logoPath'') \<longrightarrow> logoPath (?f t) = logoPath t"
    using truthy_castString [of "team ''name''"]
    by (auto simp: setTeamFields_newTeamFieldSet)
  show ?thesis
    apply (rule exI [of _ ?org'])
    apply (rule exI [of _ "st\<lparr>organizations := (organizations st)(orgId \<mapsto> ?org')\<rparr>"])
    apply (rule exI [of _ pre], rule exI [of _ post], rule exI [of _ "?f t"])
    using run sp(1,2) fields by simp
qed

text \<open>
  On the preset, the input renames team 10; its empty logo path and its forged
  identifier change nothing.
\<close>

theorem updateTeam_allow_list_witness:
  "organizations ex_db 5 = Some ex_org \<and>
   find (\<lambda>t. team_id t = 10) (teams ex_org) = Some ex_team \<and>
   (\<exists>org' st' t'.
      updateTeam 200 5 10 ex_input ex_db = (Inr (Some org'), st') \<and>
      teams org' = [t'] \<and> team_id t' = 10 \<and> team_acl t' = team_acl ex_team \<and>
      team_name t' = ''renamed'' \<and> logoPath t' = Some ''logo.png'')"
proof -
  have h1: "organizations ex_db 5 = Some ex_org" by (simp add: ex_db_def)
  have h2: "find (\<lambda>t. team_id t = 10) (teams ex_org) = Some ex_team"
    by (simp add: ex_org_def ex_team_def)
  from updateTeam_allow_list [OF h1 h2, of 200 ex_input]
  obtain org' st' pre post t' where r:
    "updateTeam 200 5 10 ex_input ex_db = (Inr (Some org'), st')"
    "teams ex_org = pre @ ex_team # post" "teams org' = pre @ t' # post"
    "team_id t' = team_id ex_team" "team_acl t' = team_acl ex_team"
    "truthy (ex_input ''name'') \<longrightarrow> castString (ex_input ''name'') = Some (team_name t')"
    "\<not> truthy (ex_input ''logoPath'') \<longrightarrow> logoPath t' = logoPath ex_team"
    by blast
  from r(2) have "pre = []" "post = []"
    by (simp_all add: ex_org_def Cons_eq_append_conv)
  with r have "updateTeam 200 5 10 ex_input ex_db = (Inr (Some org'), st') \<and>
      teams org' = [t'] \<and> team_id t' = 10 \<and> team_acl t' = team_acl ex_team \<and>
      team_name t' = ''renamed'' \<and> logoPath t' = Some ''logo.png''"
    by (simp add: ex_input_def ex_team_def)
  with h1 h2 show ?thesis by blast
qed

text \<open>
  C10. When the organization does not exist, or none of its teams has the id,
  \<^verbatim>\<open>updateTeam\<close> resolves to \<^verbatim>\<open>null\<close>: it raises nothing and leaves the store as
  it was.
\<close>

theorem updateTeam_null_when_missing:
  assumes "\<forall>org. organizations st orgId = Some org \<longrightarrow> teamId \<notin> team_id ` set (teams org)"
  shows "updateTeam now orgId teamId team st = (Inr None, st)"
  using assms by (auto simp: updateTeam_def hasTeam_def split: option.splits)

text \<open>On the preset: team 11 is not in organization 5, and organization 6 does not exist.\<close>

theorem updateTeam_null_when_missing_witness:
  "organizations ex_db 5 = Some ex_org \<and> map team_id (teams ex_org) = [10] \<and>
   organizations ex_db 6 = None \<and>
   updateTeam 200 5 11 ex_input ex_db = (Inr None, ex_db) \<and>
   updateTeam 200 6 10 ex_input ex_db = (Inr None, ex_db)"
proof -
  have h1: "\<forall>org. organizations ex_db 5 = Some org \<longrightarrow> 11 \<notin> team_id ` set (teams org)"
    by (simp add: ex_db_def ex_org_def ex_team_def)
  have h2: "\<forall>org. organizations ex_db 6 = Some org \<longrightarrow> 10 \<notin> team_id ` set (teams org)"
    by (simp add: ex_db_def)
  have "organizations ex_db 5 = Some ex_org" "map team_id (teams ex_org) = [10]"
    "organizations ex_db 6 = None"
    by (simp_all add: ex_db_def ex_org_def ex_team_def)
  then show ?thesis
    using updateTeam_null_when_missing [OF h1, of 200 ex_input]
      updateTeam_null_when_missing [OF h2, of 200 ex_input]
    by simp
qed

end
